theory Spec2Isabelle
  imports Complex_Main "HOL-Library.AList"
begin

section \<open>Exceptions and rendered integers\<close>

text \<open>
  Exceptions of the Python source are values. \<open>HTTPException\<close> carries its status code
  and its detail; the detail of the 500 raised by \<open>process_transaction\<close> embeds the
  exception it wraps.
\<close>

datatype exn =
    HTTPException nat detail
  | RequestException
  | ValueError
  | AttributeError
  | IntegrityError
  | PipelineError
  | SMTPException
and detail =
    Detail string
  | Failed string exn

text \<open>Python's \<open>str\<close> on an integer: the decimal digits, with a sign for negatives.\<close>

definition digit_char :: "nat \<Rightarrow> char" where
  "digit_char d = char_of (48 + d)"

function str_nat :: "nat \<Rightarrow> string" where
  "str_nat n = (if n < 10 then [digit_char n] else str_nat (n div 10) @ [digit_char (n mod 10)])"
  by pat_completeness auto
termination
  by (relation "measure id") auto

declare str_nat.simps [simp del]

definition str_int :: "int \<Rightarrow> string" where
  "str_int i = (if i < 0 then CHR ''-'' # str_nat (nat (- i)) else str_nat (nat i))"

section \<open>services/device\_service.py\<close>

text \<open>
  The request context: cookies and headers, each a dictionary from names to values.
\<close>

record request =
  cookies :: "string \<rightharpoonup> string"
  headers :: "string \<rightharpoonup> string"

text \<open>
  What the single call to the geolocation service can do. The first four outcomes are the
  failures: the request raises (connection error or the 5 second timeout), the status is
  an error (\<open>raise_for_status\<close>), the body is not JSON, the JSON is not an object (so
  \<open>data.get\<close> raises). The last is a JSON object; a field is \<open>None\<close> when its key is
  missing (for the coordinates also when it is null). Fields that are present are taken
  to be strings (ip, country\_name, city) and numbers (latitude, longitude).
\<close>

record geo_json =
  j_ip :: "string option"
  j_country_name :: "string option"
  j_city :: "string option"
  j_latitude :: "real option"
  j_longitude :: "real option"

datatype geo_outcome =
    RequestFailed
  | BadStatus
  | NotJson
  | NotAnObject
  | JsonObject geo_json

record location_data =
  l_country :: string
  l_city :: string
  l_latitude :: "real option"
  l_longitude :: "real option"

text \<open>Python's \<open>dict.get(key, default)\<close> on a field of the response.\<close>

definition get_default :: "'a option \<Rightarrow> 'a \<Rightarrow> 'a" where
  "get_default field dflt = (case field of None \<Rightarrow> dflt | Some v \<Rightarrow> v)"

text \<open>The body of the \<open>try\<close> block of \<open>get_ip_and_location_data\<close>.\<close>

fun lookup_try :: "geo_outcome \<Rightarrow> exn + (string \<times> location_data)" where
  "lookup_try RequestFailed = Inl RequestException"
| "lookup_try BadStatus = Inl RequestException"
| "lookup_try NotJson = Inl ValueError"
| "lookup_try NotAnObject = Inl AttributeError"
| "lookup_try (JsonObject data) =
     Inr (get_default (j_ip data) ''127.0.0.1'',
          \<lparr> l_country = get_default (j_country_name data) ''Unknown'',
            l_city = get_default (j_city data) ''Unknown'',
            l_latitude = j_latitude data,
            l_longitude = j_longitude data \<rparr>)"

definition sentinel_location :: "string \<times> location_data" where
  "sentinel_location =
     (''127.0.0.1'',
      \<lparr> l_country = ''Unknown'', l_city = ''Unknown'',
        l_latitude = None, l_longitude = None \<rparr>)"

text \<open>
  The two \<open>except\<close> clauses: \<open>requests.RequestException\<close> first, then every other
  \<open>Exception\<close>; both return the same sentinel.
\<close>

definition get_ip_and_location_data :: "geo_outcome \<Rightarrow> string \<times> location_data" where
  "get_ip_and_location_data outcome =
     (case lookup_try outcome of
        Inr res \<Rightarrow> res
      | Inl RequestException \<Rightarrow> sentinel_location
      | Inl _ \<Rightarrow> sentinel_location)"

text \<open>\<open>if not device_id\<close>: a missing value and the empty string are both falsy.\<close>

definition falsy_str :: "string option \<Rightarrow> bool" where
  "falsy_str v = (case v of None \<Rightarrow> True | Some s \<Rightarrow> s = [])"

definition get_device_id_from_request :: "request \<Rightarrow> string" where
  "get_device_id_from_request req =
     (let device_id = cookies req ''device_id'';
          device_id = (if falsy_str device_id then headers req ''X-Device-ID'' else device_id)
      in (case device_id of
            None \<Rightarrow> ''unknown_device''
          | Some s \<Rightarrow> if s = [] then ''unknown_device'' else s))"

record derived_data =
  d_device_id :: string
  d_ip_address :: string
  d_country :: string
  d_city :: string
  d_latitude :: "real option"
  d_longitude :: "real option"
  d_initiation_mode :: string

definition calculate_derived_columns :: "request \<Rightarrow> geo_outcome \<Rightarrow> derived_data" where
  "calculate_derived_columns req outcome =
     (let device_id = get_device_id_from_request req;
          (ip_address, location) = get_ip_and_location_data outcome
      in \<lparr> d_device_id = device_id,
           d_ip_address = ip_address,
           d_country = l_country location,
           d_city = l_city location,
           d_latitude = l_latitude location,
           d_longitude = l_longitude location,
           d_initiation_mode = ''Default'' \<rparr>)"

section \<open>routers/transaction.py: the OTP store and the mail\<close>

text \<open>
  \<open>otp_store\<close> is one process-wide dictionary. The legacy endpoint stores the integer
  drawn by \<open>random.randint\<close> under the profile's UPI id; the step-up endpoint stores
  the drawn integer rendered as a string under the \<open>email\<close> form field, which is
  \<open>None\<close> when the field is missing. An integer never equals a string in Python, so the
  two kinds of value are kept apart. The dictionary is an association list in insertion
  order: assignment replaces the value of a key in place or appends a new entry,
  \<open>del\<close> removes the key.
\<close>

datatype otp_value = IntOtp int | StrOtp string

type_synonym otp_store = "(string option \<times> otp_value) list"

definition otp_set :: "string option \<Rightarrow> otp_value \<Rightarrow> otp_store \<Rightarrow> otp_store" where
  "otp_set key v store = AList.update key v store"

definition otp_del :: "string option \<Rightarrow> otp_store \<Rightarrow> otp_store" where
  "otp_del key store = AList.delete key store"

definition otp_get :: "otp_store \<Rightarrow> string option \<Rightarrow> otp_value option" where
  "otp_get store key = map_of store key"

text \<open>The entries a key has in the store, and the store's invariant.\<close>

definition challenges_for :: "string option \<Rightarrow> otp_store \<Rightarrow> otp_store" where
  "challenges_for key store = filter (\<lambda>entry. fst entry = key) store"

definition one_per_key :: "otp_store \<Rightarrow> bool" where
  "one_per_key store = distinct (map fst store)"

text \<open>
  The mail that carries a code. The SMTP session is outside the program: the environment
  says whether \<open>settings\<close> has an \<open>SMTP_SERVER\<close> and which exception, if any, the
  session (connect, starttls, login, send) raises for a mail. Both mail bodies tell the
  reader that the code is valid for 10 minutes.
\<close>

record mail =
  mail_to :: "string option"
  mail_subject :: string
  mail_code :: otp_value

record smtp_env =
  has_smtp_server :: bool
  smtp_session :: "mail \<Rightarrow> exn option"

text \<open>
  \<open>send_otp_email\<close>: everything is inside \<open>try\<close>; any exception is printed and turned
  into \<open>False\<close>. Without a configured server the code is only printed.
\<close>

definition send_otp_email :: "smtp_env \<Rightarrow> string option \<Rightarrow> string \<Rightarrow> bool" where
  "send_otp_email env email otp =
     (let msg = \<lparr> mail_to = email,
                  mail_subject = ''CipherStorm - Transaction Verification OTP'',
                  mail_code = StrOtp otp \<rparr>
      in if has_smtp_server env
         then (case smtp_session env msg of None \<Rightarrow> True | Some e \<Rightarrow> False)
         else True)"

section \<open>routers/transaction.py: the database\<close>

text \<open>The authenticated caller that \<open>get_current_user\<close> hands to every endpoint.\<close>

record current_user =
  cu_user_id :: string

text \<open>
  The rows the endpoints read and write. The ORM classes are not part of the sources at
  hand; the fields are those the endpoints use. \<open>is_fraud\<close> is \<open>None\<close> until it is
  set. A \<open>datetime\<close> is an instant with the calendar fields the endpoints read from it.
\<close>

record profile =
  p_user_id :: string
  upi_id :: string
  p_email :: string

record user =
  u_user_id :: string
  u_email :: string

record datetime =
  dt_stamp :: int
  dt_weekday :: nat
  dt_hour :: nat
  dt_minute :: nat

record transaction =
  transaction_id :: string
  user_id :: string
  amount :: real
  transaction_type :: string
  payment_instrument :: string
  payer_vpa :: string
  beneficiary_vpa :: string
  initiation_mode :: string
  device_id :: string
  ip_address :: string
  latitude :: "real option"
  longitude :: "real option"
  country :: string
  city :: string
  day_of_week :: nat
  hour :: nat
  minute :: nat
  is_night :: bool
  created_at :: datetime
  is_fraud :: "bool option"

record db =
  profiles :: "profile list"
  users :: "user list"
  transactions :: "transaction list"

text \<open>\<open>db.query(Profile).filter(Profile.user_id == uid).first()\<close>, and the same for users.\<close>

definition profile_of :: "db \<Rightarrow> string \<Rightarrow> profile option" where
  "profile_of d uid = find (\<lambda>p. p_user_id p = uid) (profiles d)"

definition user_of :: "db \<Rightarrow> string \<Rightarrow> user option" where
  "user_of d uid = find (\<lambda>u. u_user_id u = uid) (users d)"

definition transactions_of :: "db \<Rightarrow> string \<Rightarrow> transaction list" where
  "transactions_of d uid = filter (\<lambda>t. user_id t = uid) (transactions d)"

text \<open>
  \<open>order_by(created_at.desc()).first()\<close>: the row with the greatest instant; among rows
  of the same instant the database is free to choose, here the earliest inserted.
\<close>

fun latest :: "transaction list \<Rightarrow> transaction option" where
  "latest [] = None"
| "latest (t # ts) =
     (case latest ts of
        None \<Rightarrow> Some t
      | Some u \<Rightarrow> if dt_stamp (created_at t) < dt_stamp (created_at u) then Some u else Some t)"

text \<open>
  \<open>if last_txn and last_txn.latitude and last_txn.longitude\<close>: a missing row, a missing
  coordinate and a coordinate equal to zero are all falsy.
\<close>

definition last_location :: "db \<Rightarrow> string \<Rightarrow> (real \<times> real) option" where
  "last_location d uid =
     (case latest (transactions_of d uid) of
        None \<Rightarrow> None
      | Some last_txn \<Rightarrow>
          (case (latitude last_txn, longitude last_txn) of
             (Some la, Some lo) \<Rightarrow> if la \<noteq> 0 \<and> lo \<noteq> 0 then Some (la, lo) else None
           | _ \<Rightarrow> None))"

text \<open>\<open>db.query(Transaction).get(txn_id)\<close>: lookup by primary key.\<close>

definition get_transaction :: "db \<Rightarrow> string \<Rightarrow> transaction option" where
  "get_transaction d txn_id = find (\<lambda>t. transaction_id t = txn_id) (transactions d)"

text \<open>
  \<open>db.add(txn); db.commit()\<close>: the insert fails on a primary key that is already there
  (the key comes from \<open>uuid4\<close>).
\<close>

definition add_commit :: "transaction \<Rightarrow> db \<Rightarrow> exn + db" where
  "add_commit t d =
     (if transaction_id t \<in> set (map transaction_id (transactions d))
      then Inl IntegrityError
      else Inr (d\<lparr>transactions := transactions d @ [t]\<rparr>))"

text \<open>Assigning \<open>is_fraud\<close> on a persisted row and committing.\<close>

definition set_is_fraud :: "string \<Rightarrow> bool \<Rightarrow> db \<Rightarrow> db" where
  "set_is_fraud txn_id flag d =
     d\<lparr>transactions :=
         map (\<lambda>t. if transaction_id t = txn_id then t\<lparr>is_fraud := Some flag\<rparr> else t)
           (transactions d)\<rparr>"

text \<open>\<open>db.delete(txn); db.commit()\<close>.\<close>

definition delete_commit :: "transaction \<Rightarrow> db \<Rightarrow> db" where
  "delete_commit t d =
     d\<lparr>transactions := filter (\<lambda>r. transaction_id r \<noteq> transaction_id t) (transactions d)\<rparr>"

text \<open>
  The scorer \<open>run_fraud_pipeline\<close> lives outside the sources at hand. It is a parameter:
  given the candidate, the profile, the history count, the last location and the session
  it returns a result or raises; it is taken not to write to the session.
\<close>

record fraud_result =
  final_prediction :: int
  fraud_explanation :: string

type_synonym scorer =
  "transaction \<Rightarrow> profile \<Rightarrow> nat \<Rightarrow> (real \<times> real) option \<Rightarrow> db \<Rightarrow> exn + fraud_result"

text \<open>What one request gets from outside: the clock, \<open>uuid4\<close>, the lookup, the draw.\<close>

record inputs =
  in_now :: datetime
  in_uuid :: string
  in_geo :: geo_outcome
  in_draw :: int

definition candidate ::
  "inputs \<Rightarrow> request \<Rightarrow> real \<Rightarrow> string \<Rightarrow> string \<Rightarrow> string \<Rightarrow> current_user \<Rightarrow> profile
    \<Rightarrow> transaction" where
  "candidate inp req amt ttype method recipient cu prof =
     (let now = in_now inp;
          night = (dt_hour now < 6 \<or> dt_hour now > 22);
          derived = calculate_derived_columns req (in_geo inp)
      in \<lparr> transaction_id = in_uuid inp,
           user_id = cu_user_id cu,
           amount = amt,
           transaction_type = ttype,
           payment_instrument = method,
           payer_vpa = upi_id prof,
           beneficiary_vpa = recipient,
           initiation_mode = d_initiation_mode derived,
           device_id = d_device_id derived,
           ip_address = d_ip_address derived,
           latitude = d_latitude derived,
           longitude = d_longitude derived,
           country = d_country derived,
           city = d_city derived,
           day_of_week = dt_weekday now,
           hour = dt_hour now,
           minute = dt_minute now,
           is_night = night,
           created_at = now,
           is_fraud = None \<rparr>)"

section \<open>routers/transaction.py: step\_up\_verify\<close>

text \<open>
  A rendered template with its context. A context key that is missing, or whose value is
  \<open>None\<close>, is \<open>None\<close> here; \<open>otp_sent\<close> is false when the key is missing.
\<close>

record 'td page =
  template :: string
  page_user :: current_user
  otp_sent :: bool
  user_email :: "string option"
  transaction_data :: "'td option"
  success :: "string option"
  error :: "string option"

text \<open>
  The endpoint. \<open>draw\<close> is what \<open>random.randint(100000, 999999)\<close> returns when it is
  called. The form fields \<open>email\<close>, \<open>otp\<close> and \<open>transaction_data\<close> default to
  \<open>None\<close>. Nothing inside the \<open>try\<close> raises in this model (template rendering is not
  modelled), so the \<open>except\<close> branch does not appear; an action that is none of the
  three falls through and the function returns \<open>None\<close>. The function reads no clock and
  keeps no count of attempts. It receives the database session \<open>db\<close> and never uses it.
\<close>

definition step_up_verify ::
  "smtp_env \<Rightarrow> int \<Rightarrow> string \<Rightarrow> string option \<Rightarrow> string option \<Rightarrow> 'td option
    \<Rightarrow> current_user \<Rightarrow> db \<Rightarrow> otp_store \<Rightarrow> db \<times> otp_store \<times> 'td page option" where
  "step_up_verify env draw action email otp td cu d store =
     (if action = ''send_otp'' then
        (let otp_code = str_int draw;
             store' = otp_set email (StrOtp otp_code) store;
             ok = send_otp_email env email otp_code
         in if ok
            then (d, store', Some \<lparr> template = ''step_up.html'', page_user = cu,
                    otp_sent = True, user_email = email, transaction_data = td,
                    success = Some ''OTP sent successfully to your email!'',
                    error = None \<rparr>)
            else (d, store', Some \<lparr> template = ''step_up.html'', page_user = cu,
                    otp_sent = False, user_email = email, transaction_data = td,
                    success = None,
                    error = Some ''Failed to send OTP. Please try again.'' \<rparr>))
      else if action = ''verify_otp'' then
        (if (case otp_get store email of
               None \<Rightarrow> False
             | Some stored \<Rightarrow> Some stored = map_option StrOtp otp)
         then (d, otp_del email store,
               Some \<lparr> template = ''identity_verified.html'', page_user = cu,
                 otp_sent = False, user_email = None, transaction_data = None,
                 success = None, error = None \<rparr>)
         else (d, store,
               Some \<lparr> template = ''step_up.html'', page_user = cu,
                 otp_sent = True, user_email = email, transaction_data = td,
                 success = None,
                 error = Some ''Invalid OTP. Please try again.'' \<rparr>))
      else if action = ''resend_otp'' then
        (let otp_code = str_int draw;
             store' = otp_set email (StrOtp otp_code) store;
             ok = send_otp_email env email otp_code
         in (d, store', Some \<lparr> template = ''step_up.html'', page_user = cu,
               otp_sent = True, user_email = email, transaction_data = td,
               success = Some (if ok then ''OTP resent successfully!''
                               else ''Failed to resend OTP.''),
               error = None \<rparr>))
      else (d, store, None))"

section \<open>routers/transaction.py: the legacy endpoints\<close>

text \<open>
  The legacy mail is sent with no \<open>try\<close> around it: \<open>settings.SMTP_SERVER\<close> is read
  directly, and whatever the session raises leaves the endpoint.
\<close>

definition legacy_smtp :: "smtp_env \<Rightarrow> mail \<Rightarrow> exn option" where
  "legacy_smtp env msg = (if has_smtp_server env then smtp_session env msg else Some AttributeError)"

datatype legacy_response = OtpSent string | Scored fraud_result

text \<open>
  \<open>create_and_predict_transaction\<close>: the row is saved before it is scored, the flag is
  set afterwards, and a positive verdict stores a code and mails it. An exception leaves
  the endpoint with whatever was committed before it.
\<close>

definition create_and_predict_transaction ::
  "scorer \<Rightarrow> smtp_env \<Rightarrow> inputs \<Rightarrow> request \<Rightarrow> real \<Rightarrow> string \<Rightarrow> string \<Rightarrow> string
    \<Rightarrow> current_user \<Rightarrow> db \<Rightarrow> otp_store \<Rightarrow> db \<times> otp_store \<times> (exn + legacy_response)" where
  "create_and_predict_transaction score env inp req amt ttype method recipient cu d store =
     (case profile_of d (cu_user_id cu) of
        None \<Rightarrow> (d, store, Inl (HTTPException 404 (Detail ''User profile not found'')))
      | Some prof \<Rightarrow>
          (let last_loc = last_location d (cu_user_id cu);
               new_txn = candidate inp req amt ttype method recipient cu prof
           in case add_commit new_txn d of
                Inl e \<Rightarrow> (d, store, Inl e)
              | Inr d1 \<Rightarrow>
                  (let txn_count = length (transactions_of d1 (cu_user_id cu))
                   in case score new_txn prof txn_count last_loc d1 of
                        Inl e \<Rightarrow> (d1, store, Inl e)
                      | Inr result \<Rightarrow>
                          (let fraud = (final_prediction result \<noteq> 0);
                               d2 = set_is_fraud (transaction_id new_txn) fraud d1
                           in if fraud then
                                (let otp = in_draw inp;
                                     store' = otp_set (Some (upi_id prof)) (IntOtp otp) store;
                                     msg = \<lparr> mail_to = Some (p_email prof),
                                             mail_subject = ''Your OTP Code'',
                                             mail_code = IntOtp otp \<rparr>
                                 in case legacy_smtp env msg of
                                      Some e \<Rightarrow> (d2, store', Inl e)
                                    | None \<Rightarrow>
                                        (d2, store',
                                         Inr (OtpSent ''Fraud detected. OTP sent to registered email.'')))
                              else (d2, store, Inr (Scored result))))))"

text \<open>\<open>not stored_otp\<close>: nothing stored, the integer zero and the empty string are falsy.\<close>

definition falsy_otp :: "otp_value option \<Rightarrow> bool" where
  "falsy_otp v =
     (case v of None \<Rightarrow> True | Some (IntOtp i) \<Rightarrow> i = 0 | Some (StrOtp s) \<Rightarrow> s = [])"

definition verify_otp ::
  "int \<Rightarrow> current_user \<Rightarrow> db \<Rightarrow> otp_store \<Rightarrow> otp_store \<times> (exn + string)" where
  "verify_otp otp cu d store =
     (case profile_of d (cu_user_id cu) of
        None \<Rightarrow> (store, Inl (HTTPException 404 (Detail ''User profile not found'')))
      | Some prof \<Rightarrow>
          (let stored_otp = otp_get store (Some (upi_id prof))
           in if falsy_otp stored_otp \<or> stored_otp \<noteq> Some (IntOtp otp)
              then (store, Inl (HTTPException 400 (Detail ''Invalid or expired OTP'')))
              else (otp_del (Some (upi_id prof)) store,
                    Inr ''OTP verified successfully. Transaction approved.'')))"

definition delete_transaction :: "string \<Rightarrow> current_user \<Rightarrow> db \<Rightarrow> db \<times> (exn + string)" where
  "delete_transaction txn_id cu d =
     (case get_transaction d txn_id of
        None \<Rightarrow> (d, Inl (HTTPException 404 (Detail ''Transaction not found'')))
      | Some txn \<Rightarrow> (delete_commit txn d, Inr ''Transaction deleted''))"

section \<open>routers/transaction.py: process\_transaction\<close>

text \<open>
  The dictionary \<open>transaction_data\<close> shown by the templates, and the JSON carried through
  the step-up page (the serialisation itself is not modelled; \<open>timestamp\<close> keeps the
  instant whose rendering the source stores).
\<close>

record txn_summary =
  s_transaction_id :: string
  s_amount :: real
  s_transaction_type :: string
  s_payment_method :: string
  s_to_account :: string
  s_timestamp :: datetime
  s_from_account :: string

record pending =
  pd_summary :: txn_summary
  pd_amount :: real
  pd_transaction_type :: string
  pd_payment_method :: string
  pd_recipient_upi_id :: string
  pd_derived_data :: derived_data
  pd_txn_count :: nat
  pd_last_transaction_location :: "(real \<times> real) option"

datatype process_response =
    StepUp current_user fraud_result pending "string option"
  | Results current_user txn_summary fraud_result

text \<open>The body of the \<open>try\<close> block: the candidate is built and scored before anything is saved.\<close>

definition process_try ::
  "scorer \<Rightarrow> inputs \<Rightarrow> request \<Rightarrow> real \<Rightarrow> string \<Rightarrow> string \<Rightarrow> string
    \<Rightarrow> current_user \<Rightarrow> db \<Rightarrow> exn + (db \<times> process_response)" where
  "process_try score inp req amt ttype method recipient cu d =
     (let prof_opt = profile_of d (cu_user_id cu);
          usr = user_of d (cu_user_id cu)
      in case prof_opt of
           None \<Rightarrow> Inl (HTTPException 404 (Detail ''User profile not found''))
         | Some prof \<Rightarrow>
             (let derived = calculate_derived_columns req (in_geo inp);
                  last_loc = last_location d (cu_user_id cu);
                  temp_txn = candidate inp req amt ttype method recipient cu prof;
                  txn_count = length (transactions_of d (cu_user_id cu))
              in case score temp_txn prof txn_count last_loc d of
                   Inl e \<Rightarrow> Inl e
                 | Inr fraud_res \<Rightarrow>
                     (let summary = \<lparr> s_transaction_id = in_uuid inp,
                                       s_amount = amt,
                                       s_transaction_type = ttype,
                                       s_payment_method = method,
                                       s_to_account = recipient,
                                       s_timestamp = in_now inp,
                                       s_from_account = upi_id prof \<rparr>
                      in if final_prediction fraud_res = 1 then
                           Inr (d, StepUp cu fraud_res
                                  \<lparr> pd_summary = summary,
                                    pd_amount = amt,
                                    pd_transaction_type = ttype,
                                    pd_payment_method = method,
                                    pd_recipient_upi_id = recipient,
                                    pd_derived_data = derived,
                                    pd_txn_count = txn_count,
                                    pd_last_transaction_location = last_loc \<rparr>
                                  (map_option u_email usr))
                         else
                           (case add_commit (temp_txn\<lparr>is_fraud := Some False\<rparr>) d of
                              Inl e \<Rightarrow> Inl e
                            | Inr d' \<Rightarrow> Inr (d', Results cu summary fraud_res)))))"

text \<open>\<open>except Exception as e\<close>: every exception of the body, the 404 included, becomes a 500.\<close>

definition process_transaction ::
  "scorer \<Rightarrow> inputs \<Rightarrow> request \<Rightarrow> real \<Rightarrow> string \<Rightarrow> string \<Rightarrow> string
    \<Rightarrow> current_user \<Rightarrow> db \<Rightarrow> db \<times> (exn + process_response)" where
  "process_transaction score inp req amt ttype method recipient cu d =
     (case process_try score inp req amt ttype method recipient cu d of
        Inl e \<Rightarrow> (d, Inl (HTTPException 500 (Failed ''Transaction processing failed: '' e)))
      | Inr (d', resp) \<Rightarrow> (d', Inr resp))"

section \<open>Runs of requests and sample data\<close>

text \<open>
  A run of verification requests against \<open>step_up_verify\<close>, one per supplied code, each
  served on the state the previous one left. The pages are returned in order.
\<close>

fun verify_all ::
  "smtp_env \<Rightarrow> string option \<Rightarrow> string option list \<Rightarrow> 'td option \<Rightarrow> current_user
    \<Rightarrow> db \<Rightarrow> otp_store \<Rightarrow> db \<times> otp_store \<times> 'td page option list" where
  "verify_all env email [] td cu d store = (d, store, [])"
| "verify_all env email (guess # guesses) td cu d store =
     (case step_up_verify env 0 ''verify_otp'' email guess td cu d store of
        (d1, store1, pg) \<Rightarrow>
          (case verify_all env email guesses td cu d1 store1 of
             (d2, store2, pgs) \<Rightarrow> (d2, store2, pg # pgs)))"

text \<open>The page that \<open>step_up_verify\<close> renders for a refused code.\<close>

definition invalid_page :: "current_user \<Rightarrow> string option \<Rightarrow> 'td option \<Rightarrow> 'td page" where
  "invalid_page cu email td =
     \<lparr> template = ''step_up.html'', page_user = cu, otp_sent = True, user_email = email,
       transaction_data = td, success = None,
       error = Some ''Invalid OTP. Please try again.'' \<rparr>"

definition verified_page :: "current_user \<Rightarrow> 'td page" where
  "verified_page cu =
     \<lparr> template = ''identity_verified.html'', page_user = cu, otp_sent = False,
       user_email = None, transaction_data = None, success = None, error = None \<rparr>"

text \<open>Sample data: one user with a profile, no history, a request without device id.\<close>

definition ex_request :: request where
  "ex_request = \<lparr> cookies = Map.empty, headers = Map.empty \<rparr>"

definition ex_now :: datetime where
  "ex_now = \<lparr> dt_stamp = 1000, dt_weekday = 2, dt_hour = 14, dt_minute = 30 \<rparr>"

definition ex_profile :: profile where
  "ex_profile = \<lparr> p_user_id = ''u1'', upi_id = ''alice@upi'', p_email = ''alice@example.com'' \<rparr>"

definition ex_alice :: current_user where
  "ex_alice = \<lparr> cu_user_id = ''u1'' \<rparr>"

definition ex_mallory :: current_user where
  "ex_mallory = \<lparr> cu_user_id = ''u2'' \<rparr>"

definition ex_db :: db where
  "ex_db = \<lparr> profiles = [ex_profile],
             users = [\<lparr> u_user_id = ''u1'', u_email = ''alice@example.com'' \<rparr>],
             transactions = [] \<rparr>"

definition ex_inputs :: inputs where
  "ex_inputs = \<lparr> in_now = ex_now, in_uuid = ''txn-1'', in_geo = RequestFailed,
                 in_draw = 123456 \<rparr>"

definition ex_verdict :: "int \<Rightarrow> fraud_result" where
  "ex_verdict p = \<lparr> final_prediction = p, fraud_explanation = ''score'' \<rparr>"

definition score_fraud :: scorer where
  "score_fraud t prof n loc d = Inr (ex_verdict 1)"

definition score_clean :: scorer where
  "score_clean t prof n loc d = Inr (ex_verdict 0)"

definition smtp_up :: smtp_env where
  "smtp_up = \<lparr> has_smtp_server = True, smtp_session = (\<lambda>msg. None) \<rparr>"

definition smtp_down :: smtp_env where
  "smtp_down = \<lparr> has_smtp_server = True, smtp_session = (\<lambda>msg. Some SMTPException) \<rparr>"

text \<open>The candidate that the sample submission of 50000 to \<open>bob@upi\<close> builds.\<close>

definition ex_candidate :: transaction where
  "ex_candidate =
     \<lparr> transaction_id = ''txn-1'', user_id = ''u1'', amount = 50000,
       transaction_type = ''P2P'', payment_instrument = ''UPI'',
       payer_vpa = ''alice@upi'', beneficiary_vpa = ''bob@upi'',
       initiation_mode = ''Default'', device_id = ''unknown_device'',
       ip_address = ''127.0.0.1'', latitude = None, longitude = None,
       country = ''Unknown'', city = ''Unknown'', day_of_week = 2, hour = 14,
       minute = 30, is_night = False, created_at = ex_now, is_fraud = None \<rparr>"

definition ex_summary :: txn_summary where
  "ex_summary =
     \<lparr> s_transaction_id = ''txn-1'', s_amount = 50000, s_transaction_type = ''P2P'',
       s_payment_method = ''UPI'', s_to_account = ''bob@upi'', s_timestamp = ex_now,
       s_from_account = ''alice@upi'' \<rparr>"

definition ex_pending :: pending where
  "ex_pending =
     \<lparr> pd_summary = ex_summary, pd_amount = 50000, pd_transaction_type = ''P2P'',
       pd_payment_method = ''UPI'', pd_recipient_upi_id = ''bob@upi'',
       pd_derived_data =
         \<lparr> d_device_id = ''unknown_device'', d_ip_address = ''127.0.0.1'',
           d_country = ''Unknown'', d_city = ''Unknown'', d_latitude = None,
           d_longitude = None, d_initiation_mode = ''Default'' \<rparr>,
       pd_txn_count = 0, pd_last_transaction_location = None \<rparr>"

definition ex_db_saved :: "bool \<Rightarrow> db" where
  "ex_db_saved flag = ex_db\<lparr>transactions := [ex_candidate\<lparr>is_fraud := Some flag\<rparr>]\<rparr>"

section \<open>Facts about the building blocks\<close>

subsection \<open>Rendering the sample code\<close>

lemma digit_chars:
  "digit_char 0 = CHR ''0''" "digit_char (Suc 0) = CHR ''1''" "digit_char 2 = CHR ''2''"
  "digit_char 3 = CHR ''3''" "digit_char 4 = CHR ''4''" "digit_char 5 = CHR ''5''"
  "digit_char 6 = CHR ''6''" "digit_char 7 = CHR ''7''" "digit_char 8 = CHR ''8''"
  "digit_char 9 = CHR ''9''"
  unfolding digit_char_def by (simp_all add: char_of_def bit_simps)

lemma str_123456: "str_int 123456 = ''123456''"
  by (simp add: str_int_def str_nat.simps digit_chars)

subsection \<open>The OTP store\<close>

lemma otp_get_set: "otp_get (otp_set key v store) key = Some v"
  by (simp add: otp_get_def otp_set_def update_conv')

lemma otp_get_del: "otp_get (otp_del key store) key = None"
  by (simp add: otp_get_def otp_del_def delete_conv')

lemma one_per_key_set: "one_per_key store \<Longrightarrow> one_per_key (otp_set key v store)"
  by (simp add: one_per_key_def otp_set_def distinct_update)

lemma one_per_key_del: "one_per_key store \<Longrightarrow> one_per_key (otp_del key store)"
  by (simp add: one_per_key_def otp_del_def distinct_delete)

lemma challenges_absent:
  "key \<notin> fst ` set store \<Longrightarrow> challenges_for key store = []"
  by (induction store) (auto simp: challenges_for_def)

lemma challenges_at_most_one:
  "one_per_key store \<Longrightarrow> length (challenges_for key store) \<le> 1"
proof (induction store)
  case Nil
  then show ?case by (simp add: challenges_for_def)
next
  case (Cons entry store)
  then have rest: "one_per_key store" and new: "fst entry \<notin> fst ` set store"
    by (simp_all add: one_per_key_def)
  show ?case
  proof (cases "fst entry = key")
    case True
    with new have "challenges_for key store = []"
      by (simp add: challenges_absent)
    with True show ?thesis by (simp add: challenges_for_def)
  next
    case False
    with Cons.IH [OF rest] show ?thesis by (simp add: challenges_for_def)
  qed
qed

lemma challenges_present:
  "otp_get store key = Some v \<Longrightarrow> challenges_for key store \<noteq> []"
  by (induction store) (auto simp: challenges_for_def otp_get_def split: if_splits)

lemma challenges_after_del: "challenges_for key (otp_del key store) = []"
  by (rule challenges_absent) (simp add: otp_del_def delete_notin_dom)

subsection \<open>The steps of step\_up\_verify\<close>

lemma verify_step:
  "step_up_verify env draw ''verify_otp'' email otp td cu d store =
     (if \<exists>code. otp = Some code \<and> otp_get store email = Some (StrOtp code)
      then (d, otp_del email store, Some (verified_page cu))
      else (d, store, Some (invalid_page cu email td)))"
  by (cases "otp_get store email"; cases otp)
     (auto simp: step_up_verify_def verified_page_def invalid_page_def)

lemma issue_step:
  "action = ''send_otp'' \<or> action = ''resend_otp'' \<Longrightarrow>
     fst (snd (step_up_verify env draw action email otp td cu d store))
       = otp_set email (StrOtp (str_int draw)) store
     \<and> fst (step_up_verify env draw action email otp td cu d store) = d"
  by (auto simp: step_up_verify_def Let_def)

lemma step_up_store_cases:
  "fst (snd (step_up_verify env draw action email otp td cu d store))
     \<in> {store, otp_del email store, otp_set email (StrOtp (str_int draw)) store}"
  by (auto simp: step_up_verify_def Let_def split: option.splits)

lemma verify_all_wrong:
  "otp_get store email = Some (StrOtp code) \<Longrightarrow> \<forall>guess \<in> set guesses. guess \<noteq> Some code \<Longrightarrow>
     verify_all env email guesses td cu d store
       = (d, store, map (\<lambda>guess. Some (invalid_page cu email td)) guesses)"
  by (induction guesses) (auto simp: verify_step)

lemma legacy_store_cases:
  "one_per_key store \<Longrightarrow>
     one_per_key (fst (snd (create_and_predict_transaction score env inp req amt ttype method
        recipient cu d store)))"
  by (auto simp: create_and_predict_transaction_def Let_def one_per_key_set
      split: option.splits sum.splits)

lemma legacy_verify_store:
  "one_per_key store \<Longrightarrow> one_per_key (fst (verify_otp code cu d store))"
  by (auto simp: verify_otp_def Let_def one_per_key_del split: option.splits)

lemma step_up_keeps_one_per_key:
  "one_per_key store \<Longrightarrow>
     one_per_key (fst (snd (step_up_verify env draw action email otp td cu d store)))"
  using step_up_store_cases [of env draw action email otp td cu d store]
  by (auto simp: one_per_key_set one_per_key_del)

subsection \<open>The database and the candidate\<close>

lemma candidate_id [simp]:
  "transaction_id (candidate inp req amt ttype method recipient cu prof) = in_uuid inp"
  by (simp add: candidate_def Let_def)

lemma candidate_money:
  "amount (candidate inp req amt ttype method recipient cu prof) = amt
   \<and> payer_vpa (candidate inp req amt ttype method recipient cu prof) = upi_id prof
   \<and> beneficiary_vpa (candidate inp req amt ttype method recipient cu prof) = recipient
   \<and> is_fraud (candidate inp req amt ttype method recipient cu prof) = None"
  by (simp add: candidate_def Let_def)

lemma flag_fresh_rows:
  "txn_id \<notin> set (map transaction_id ts) \<Longrightarrow>
     map (\<lambda>t. if transaction_id t = txn_id then t\<lparr>is_fraud := Some flag\<rparr> else t) ts = ts"
  by (induction ts) auto

lemma add_commit_fresh:
  "transaction_id t \<notin> set (map transaction_id (transactions d)) \<Longrightarrow>
     add_commit t d = Inr (d\<lparr>transactions := transactions d @ [t]\<rparr>)"
  by (simp add: add_commit_def)

lemma set_is_fraud_appended:
  "transaction_id t \<notin> set (map transaction_id (transactions d)) \<Longrightarrow>
     set_is_fraud (transaction_id t) flag (d\<lparr>transactions := transactions d @ [t]\<rparr>)
       = d\<lparr>transactions := transactions d @ [t\<lparr>is_fraud := Some flag\<rparr>]\<rparr>"
  by (simp add: set_is_fraud_def flag_fresh_rows)

lemma ex_candidate_eq:
  "candidate ex_inputs ex_request 50000 ''P2P'' ''UPI'' ''bob@upi'' ex_alice ex_profile = ex_candidate"
  by (simp add: candidate_def ex_inputs_def ex_request_def ex_alice_def ex_profile_def
      ex_candidate_def ex_now_def calculate_derived_columns_def get_device_id_from_request_def
      falsy_str_def get_ip_and_location_data_def sentinel_location_def Let_def)

lemma ex_profile_found: "profile_of ex_db (cu_user_id ex_alice) = Some ex_profile"
  by (simp add: profile_of_def ex_db_def ex_alice_def ex_profile_def)

lemma get_ip_failure:
  "lookup_try outcome = Inl e \<Longrightarrow> get_ip_and_location_data outcome = sentinel_location"
  by (cases e) (simp_all add: get_ip_and_location_data_def)

section \<open>The claims\<close>

text \<open>
  C1. With a positive verdict the two submission paths differ, and neither does what the
  claim says. In the sample run \<open>create_and_predict_transaction\<close> has saved the flagged
  row while its code is still waiting in the store; and after \<open>process_transaction\<close>,
  \<open>send_otp\<close> and a \<open>verify_otp\<close> with the right code, the identity page is shown and
  the table is still empty.
\<close>

theorem fraud_gate_counterexample:
  "create_and_predict_transaction score_fraud smtp_up ex_inputs ex_request 50000 ''P2P'' ''UPI''
      ''bob@upi'' ex_alice ex_db []
     = (ex_db_saved True, [(Some ''alice@upi'', IntOtp 123456)],
        Inr (OtpSent ''Fraud detected. OTP sent to registered email.''))
   \<and> transactions (ex_db_saved True) = [ex_candidate\<lparr>is_fraud := Some True\<rparr>]
   \<and> process_transaction score_fraud ex_inputs ex_request 50000 ''P2P'' ''UPI'' ''bob@upi''
        ex_alice ex_db
     = (ex_db, Inr (StepUp ex_alice (ex_verdict 1) ex_pending (Some ''alice@example.com'')))
   \<and> step_up_verify smtp_up 123456 ''send_otp'' (Some ''alice@example.com'') None
        (Some ex_pending) ex_alice ex_db []
     = (ex_db, [(Some ''alice@example.com'', StrOtp ''123456'')],
        Some \<lparr> template = ''step_up.html'', page_user = ex_alice, otp_sent = True,
               user_email = Some ''alice@example.com'', transaction_data = Some ex_pending,
               success = Some ''OTP sent successfully to your email!'', error = None \<rparr>)
   \<and> step_up_verify smtp_up 0 ''verify_otp'' (Some ''alice@example.com'') (Some ''123456'')
        (Some ex_pending) ex_alice ex_db [(Some ''alice@example.com'', StrOtp ''123456'')]
     = (ex_db, [], Some (verified_page ex_alice))
   \<and> transactions ex_db = []"
proof (intro conjI)
  show "create_and_predict_transaction score_fraud smtp_up ex_inputs ex_request 50000 ''P2P'' ''UPI''
      ''bob@upi'' ex_alice ex_db []
     = (ex_db_saved True, [(Some ''alice@upi'', IntOtp 123456)],
        Inr (OtpSent ''Fraud detected. OTP sent to registered email.''))"
    by (simp add: create_and_predict_transaction_def ex_profile_found ex_candidate_eq
        add_commit_def set_is_fraud_def score_fraud_def ex_verdict_def legacy_smtp_def
        smtp_up_def otp_set_def ex_db_saved_def Let_def)
       (simp add: ex_db_def ex_candidate_def ex_inputs_def ex_profile_def)
  show "process_transaction score_fraud ex_inputs ex_request 50000 ''P2P'' ''UPI'' ''bob@upi''
        ex_alice ex_db
     = (ex_db, Inr (StepUp ex_alice (ex_verdict 1) ex_pending (Some ''alice@example.com'')))"
    by (simp add: process_transaction_def process_try_def ex_profile_found ex_candidate_eq
        score_fraud_def ex_verdict_def Let_def)
       (simp add: ex_pending_def ex_summary_def ex_inputs_def ex_profile_def user_of_def
        ex_db_def ex_alice_def transactions_of_def last_location_def
        calculate_derived_columns_def get_device_id_from_request_def ex_request_def
        falsy_str_def get_ip_and_location_data_def sentinel_location_def)
  show "step_up_verify smtp_up 123456 ''send_otp'' (Some ''alice@example.com'') None
        (Some ex_pending) ex_alice ex_db []
     = (ex_db, [(Some ''alice@example.com'', StrOtp ''123456'')],
        Some \<lparr> template = ''step_up.html'', page_user = ex_alice, otp_sent = True,
               user_email = Some ''alice@example.com'', transaction_data = Some ex_pending,
               success = Some ''OTP sent successfully to your email!'', error = None \<rparr>)"
    by (simp add: step_up_verify_def str_123456 otp_set_def send_otp_email_def smtp_up_def)
  show "step_up_verify smtp_up 0 ''verify_otp'' (Some ''alice@example.com'') (Some ''123456'')
        (Some ex_pending) ex_alice ex_db [(Some ''alice@example.com'', StrOtp ''123456'')]
     = (ex_db, [], Some (verified_page ex_alice))"
    by (simp add: step_up_verify_def otp_get_def otp_del_def verified_page_def)
qed (simp_all add: ex_db_saved_def ex_db_def)

text \<open>
  C1, as the code has it. For a submission with a positive verdict
  (\<open>final_prediction = 1\<close>) by a caller with a profile and with a fresh id:
  \<open>process_transaction\<close> leaves the database as it was and answers with the step-up
  page that carries the verdict and the candidate's amount, type, method, recipient,
  payer, derived columns, history count and last location;
  \<open>create_and_predict_transaction\<close> persists exactly one transaction at submission,
  before any verification and whatever the mail does: the scored candidate with its fraud
  flag set to true, and it stores the drawn code under the payer's UPI id.
\<close>

theorem fraud_submission_paths:
  assumes prof: "profile_of d (cu_user_id cu) = Some prof"
    and fresh: "in_uuid inp \<notin> set (map transaction_id (transactions d))"
    and cand: "cand = candidate inp req amt ttype method recipient cu prof"
    and uid: "uid = cu_user_id cu"
  shows
    "(score cand prof (length (transactions_of d uid)) (last_location d uid) d = Inr res
        \<and> final_prediction res = 1 \<longrightarrow>
      (\<exists>payload mail_address.
         process_transaction score inp req amt ttype method recipient cu d
           = (d, Inr (StepUp cu res payload mail_address))
         \<and> pd_amount payload = amt \<and> pd_transaction_type payload = ttype
         \<and> pd_payment_method payload = method \<and> pd_recipient_upi_id payload = recipient
         \<and> s_from_account (pd_summary payload) = upi_id prof
         \<and> pd_derived_data payload = calculate_derived_columns req (in_geo inp)
         \<and> pd_txn_count payload = length (transactions_of d uid)
         \<and> pd_last_transaction_location payload = last_location d uid))
   \<and> (score cand prof
          (length (transactions_of (d\<lparr>transactions := transactions d @ [cand]\<rparr>) uid))
          (last_location d uid) (d\<lparr>transactions := transactions d @ [cand]\<rparr>) = Inr res
        \<and> final_prediction res = 1 \<longrightarrow>
      fst (create_and_predict_transaction score env inp req amt ttype method recipient cu d store)
        = d\<lparr>transactions := transactions d @ [cand\<lparr>is_fraud := Some True\<rparr>]\<rparr>
      \<and> fst (snd (create_and_predict_transaction score env inp req amt ttype method recipient
            cu d store))
        = otp_set (Some (upi_id prof)) (IntOtp (in_draw inp)) store)"
proof (intro conjI impI)
  have id: "transaction_id cand = in_uuid inp"
    by (simp add: cand)
  have fresh': "transaction_id cand \<notin> set (map transaction_id (transactions d))"
    using fresh id by simp
  {
    assume sc: "score cand prof (length (transactions_of d uid)) (last_location d uid) d = Inr res
        \<and> final_prediction res = 1"
    show "\<exists>payload mail_address.
         process_transaction score inp req amt ttype method recipient cu d
           = (d, Inr (StepUp cu res payload mail_address))
         \<and> pd_amount payload = amt \<and> pd_transaction_type payload = ttype
         \<and> pd_payment_method payload = method \<and> pd_recipient_upi_id payload = recipient
         \<and> s_from_account (pd_summary payload) = upi_id prof
         \<and> pd_derived_data payload = calculate_derived_columns req (in_geo inp)
         \<and> pd_txn_count payload = length (transactions_of d uid)
         \<and> pd_last_transaction_location payload = last_location d uid"
      using sc prof
      by (simp add: process_transaction_def process_try_def Let_def cand[symmetric] uid[symmetric])
  }
  {
    assume sc: "score cand prof
          (length (transactions_of (d\<lparr>transactions := transactions d @ [cand]\<rparr>) uid))
          (last_location d uid) (d\<lparr>transactions := transactions d @ [cand]\<rparr>) = Inr res
        \<and> final_prediction res = 1"
    show "fst (create_and_predict_transaction score env inp req amt ttype method recipient cu d store)
        = d\<lparr>transactions := transactions d @ [cand\<lparr>is_fraud := Some True\<rparr>]\<rparr>"
      using sc prof add_commit_fresh[OF fresh'] set_is_fraud_appended[OF fresh', of True]
      by (simp add: create_and_predict_transaction_def Let_def cand[symmetric] uid[symmetric] id
          split: option.splits)
    show "fst (snd (create_and_predict_transaction score env inp req amt ttype method recipient
            cu d store))
        = otp_set (Some (upi_id prof)) (IntOtp (in_draw inp)) store"
      using sc prof add_commit_fresh[OF fresh'] set_is_fraud_appended[OF fresh', of True]
      by (simp add: create_and_predict_transaction_def Let_def cand[symmetric] uid[symmetric] id
          split: option.splits)
  }
qed

theorem fraud_submission_paths_witness:
  "profile_of ex_db (cu_user_id ex_alice) = Some ex_profile
   \<and> in_uuid ex_inputs \<notin> set (map transaction_id (transactions ex_db))
   \<and> score_fraud ex_candidate ex_profile (length (transactions_of ex_db ''u1''))
        (last_location ex_db ''u1'') ex_db = Inr (ex_verdict 1)
   \<and> score_fraud ex_candidate ex_profile
        (length (transactions_of (ex_db\<lparr>transactions := transactions ex_db @ [ex_candidate]\<rparr>) ''u1''))
        (last_location ex_db ''u1'')
        (ex_db\<lparr>transactions := transactions ex_db @ [ex_candidate]\<rparr>) = Inr (ex_verdict 1)
   \<and> final_prediction (ex_verdict 1) = 1
   \<and> (\<exists>payload mail_address.
        process_transaction score_fraud ex_inputs ex_request 50000 ''P2P'' ''UPI'' ''bob@upi''
          ex_alice ex_db
          = (ex_db, Inr (StepUp ex_alice (ex_verdict 1) payload mail_address))
        \<and> pd_amount payload = 50000 \<and> pd_recipient_upi_id payload = ''bob@upi'')
   \<and> fst (create_and_predict_transaction score_fraud smtp_down ex_inputs ex_request 50000
        ''P2P'' ''UPI'' ''bob@upi'' ex_alice ex_db [])
       = ex_db_saved True"
proof -
  have fresh: "in_uuid ex_inputs \<notin> set (map transaction_id (transactions ex_db))"
    by (simp add: ex_inputs_def ex_db_def)
  have cand: "ex_candidate
      = candidate ex_inputs ex_request 50000 ''P2P'' ''UPI'' ''bob@upi'' ex_alice ex_profile"
    by (simp add: ex_candidate_eq)
  have uid: "''u1'' = cu_user_id ex_alice"
    by (simp add: ex_alice_def)
  have verdict: "final_prediction (ex_verdict 1) = 1"
    by (simp add: ex_verdict_def)
  have saved: "ex_db\<lparr>transactions := transactions ex_db @ [ex_candidate\<lparr>is_fraud := Some True\<rparr>]\<rparr>
      = ex_db_saved True"
    by (simp add: ex_db_saved_def ex_db_def)
  show ?thesis
    using fraud_submission_paths [OF ex_profile_found fresh cand uid,
        of score_fraud "ex_verdict 1" smtp_down "[]"]
      ex_profile_found fresh verdict
    by (auto simp: score_fraud_def saved)
qed

text \<open>
  C2. No expiry is enforced. \<open>send_otp\<close> stores the code alone, with no instant of
  issue or expiry beside it, and neither verification reads a clock: the stored code is
  accepted whenever it is supplied, although both mails announce a validity of 10 minutes.
  The sample run issues a code and verifies it, through \<open>step_up_verify\<close> and through
  the legacy \<open>verify_otp\<close>.
\<close>

theorem code_accepted_without_expiry:
  "step_up_verify smtp_up 123456 ''send_otp'' (Some ''alice@example.com'') None
      (None :: pending option) ex_alice ex_db []
     = (ex_db, [(Some ''alice@example.com'', StrOtp ''123456'')],
        Some \<lparr> template = ''step_up.html'', page_user = ex_alice, otp_sent = True,
               user_email = Some ''alice@example.com'', transaction_data = None,
               success = Some ''OTP sent successfully to your email!'', error = None \<rparr>)
   \<and> step_up_verify smtp_up 0 ''verify_otp'' (Some ''alice@example.com'') (Some ''123456'')
        (None :: pending option) ex_alice ex_db
        [(Some ''alice@example.com'', StrOtp ''123456'')]
     = (ex_db, [], Some (verified_page ex_alice))
   \<and> verify_otp 123456 ex_alice ex_db [(Some ''alice@upi'', IntOtp 123456)]
     = ([], Inr ''OTP verified successfully. Transaction approved.'')"
  by (simp add: step_up_verify_def str_123456 otp_set_def otp_get_def otp_del_def
      send_otp_email_def smtp_up_def verified_page_def verify_otp_def ex_profile_found
      falsy_otp_def ex_profile_def)

text \<open>
  C3. No bound on wrong guesses is enforced. In the sample run six verifications with
  wrong codes are each answered with the "Invalid OTP" page and leave the store as it was,
  and the right code is accepted afterwards.
\<close>

theorem attempts_not_bounded_counterexample:
  "verify_all smtp_up (Some ''alice@example.com'')
      [Some ''000000'', Some ''111111'', Some ''222222'', Some ''333333'', Some ''444444'',
       Some ''555555'']
      (None :: pending option) ex_alice ex_db [(Some ''alice@example.com'', StrOtp ''123456'')]
     = (ex_db, [(Some ''alice@example.com'', StrOtp ''123456'')],
        replicate 6 (Some (invalid_page ex_alice (Some ''alice@example.com'') None)))
   \<and> step_up_verify smtp_up 0 ''verify_otp'' (Some ''alice@example.com'') (Some ''123456'')
        (None :: pending option) ex_alice ex_db
        [(Some ''alice@example.com'', StrOtp ''123456'')]
     = (ex_db, [], Some (verified_page ex_alice))"
  by (simp add: verify_step otp_get_def otp_del_def numeral_eq_Suc)

text \<open>
  C3, as the code has it. For every active challenge, a verification with a mismatching
  code leaves the store unchanged and is answered with the step-up page and the error
  "Invalid OTP. Please try again."; no attempt is counted and no bound applies: after any
  run of wrong guesses, of whatever length, the stored code still verifies.
\<close>

theorem wrong_guesses_unbounded:
  assumes held: "otp_get store email = Some (StrOtp code)"
    and wrong: "\<forall>guess \<in> set guesses. guess \<noteq> Some code"
  shows "verify_all env email guesses td cu d store
       = (d, store, replicate (length guesses) (Some (invalid_page cu email td)))
     \<and> step_up_verify env draw ''verify_otp'' email (Some code) td cu
          (fst (verify_all env email guesses td cu d store))
          (fst (snd (verify_all env email guesses td cu d store)))
       = (d, otp_del email store, Some (verified_page cu))"
proof -
  have run: "verify_all env email guesses td cu d store
       = (d, store, replicate (length guesses) (Some (invalid_page cu email td)))"
    using verify_all_wrong [OF held wrong] by (simp add: map_replicate_const)
  moreover have "step_up_verify env draw ''verify_otp'' email (Some code) td cu d store
       = (d, otp_del email store, Some (verified_page cu))"
    using held by (simp add: verify_step)
  ultimately show ?thesis by simp
qed

theorem wrong_guesses_unbounded_witness:
  "otp_get [(Some ''alice@example.com'', StrOtp ''123456'')] (Some ''alice@example.com'')
     = Some (StrOtp ''123456'')
   \<and> Some ''123456'' \<notin> set [Some ''000000'', Some ''111111'', None]
   \<and> verify_all smtp_up (Some ''alice@example.com'') [Some ''000000'', Some ''111111'', None]
        (None :: pending option) ex_alice ex_db [(Some ''alice@example.com'', StrOtp ''123456'')]
     = (ex_db, [(Some ''alice@example.com'', StrOtp ''123456'')],
        replicate 3 (Some (invalid_page ex_alice (Some ''alice@example.com'') None)))
   \<and> step_up_verify smtp_up 0 ''verify_otp'' (Some ''alice@example.com'') (Some ''123456'')
        (None :: pending option) ex_alice ex_db
        [(Some ''alice@example.com'', StrOtp ''123456'')]
     = (ex_db, [], Some (verified_page ex_alice))"
proof -
  have held: "otp_get [(Some ''alice@example.com'', StrOtp ''123456'')]
      (Some ''alice@example.com'') = Some (StrOtp ''123456'')"
    by (simp add: otp_get_def)
  have wrong: "\<forall>guess \<in> set [Some ''000000'', Some ''111111'', None]. guess \<noteq> Some ''123456''"
    by simp
  have run: "verify_all smtp_up (Some ''alice@example.com'')
        [Some ''000000'', Some ''111111'', None] (None :: pending option) ex_alice ex_db
        [(Some ''alice@example.com'', StrOtp ''123456'')]
     = (ex_db, [(Some ''alice@example.com'', StrOtp ''123456'')],
        replicate 3 (Some (invalid_page ex_alice (Some ''alice@example.com'') None)))"
    using wrong_guesses_unbounded [OF held wrong, of smtp_up "None :: pending option"
        ex_alice ex_db 0]
    by (simp add: numeral_3_eq_3 del: verify_all.simps)
  have final: "step_up_verify smtp_up 0 ''verify_otp'' (Some ''alice@example.com'')
        (Some ''123456'') (None :: pending option) ex_alice ex_db
        [(Some ''alice@example.com'', StrOtp ''123456'')]
     = (ex_db, [], Some (verified_page ex_alice))"
    by (simp add: verify_step otp_get_def otp_del_def)
  show ?thesis
    using held wrong run final by (simp del: verify_all.simps)
qed

text \<open>
  C4. A submission whose verdict is "not fraud" (\<open>final_prediction = 0\<close>), made by a
  caller with a profile and with a fresh id, persists exactly one transaction: the table
  grows by the scored candidate with its fraud flag set to false, and the amount, the
  payer and the beneficiary are those of the input. This holds for
  \<open>process_transaction\<close>, which scores first, and for
  \<open>create_and_predict_transaction\<close>, which scores the row it has just saved.
\<close>

theorem not_fraud_persists_once:
  assumes prof: "profile_of d (cu_user_id cu) = Some prof"
    and fresh: "in_uuid inp \<notin> set (map transaction_id (transactions d))"
    and cand: "cand = candidate inp req amt ttype method recipient cu prof"
    and uid: "uid = cu_user_id cu"
  shows
    "(score cand prof (length (transactions_of d uid)) (last_location d uid) d = Inr res
        \<and> final_prediction res = 0 \<longrightarrow>
      (\<exists>summary.
         process_transaction score inp req amt ttype method recipient cu d
           = (d\<lparr>transactions := transactions d @ [cand\<lparr>is_fraud := Some False\<rparr>]\<rparr>,
              Inr (Results cu summary res))
         \<and> s_amount summary = amt \<and> s_to_account summary = recipient
         \<and> s_from_account summary = upi_id prof))
   \<and> (score cand prof
          (length (transactions_of (d\<lparr>transactions := transactions d @ [cand]\<rparr>) uid))
          (last_location d uid) (d\<lparr>transactions := transactions d @ [cand]\<rparr>) = Inr res
        \<and> final_prediction res = 0 \<longrightarrow>
      create_and_predict_transaction score env inp req amt ttype method recipient cu d store
        = (d\<lparr>transactions := transactions d @ [cand\<lparr>is_fraud := Some False\<rparr>]\<rparr>,
           store, Inr (Scored res)))
   \<and> amount (cand\<lparr>is_fraud := Some False\<rparr>) = amt
   \<and> payer_vpa (cand\<lparr>is_fraud := Some False\<rparr>) = upi_id prof
   \<and> beneficiary_vpa (cand\<lparr>is_fraud := Some False\<rparr>) = recipient
   \<and> is_fraud (cand\<lparr>is_fraud := Some False\<rparr>) = Some False"
proof (intro conjI impI)
  have id: "transaction_id cand = in_uuid inp"
    by (simp add: cand)
  have fresh': "transaction_id cand \<notin> set (map transaction_id (transactions d))"
    using fresh id by simp
  have fresh'': "transaction_id (cand\<lparr>is_fraud := Some False\<rparr>) \<notin> set (map transaction_id (transactions d))"
    using fresh id by simp
  {
    assume sc: "score cand prof (length (transactions_of d uid)) (last_location d uid) d = Inr res
        \<and> final_prediction res = 0"
    show "\<exists>summary.
         process_transaction score inp req amt ttype method recipient cu d
           = (d\<lparr>transactions := transactions d @ [cand\<lparr>is_fraud := Some False\<rparr>]\<rparr>,
              Inr (Results cu summary res))
         \<and> s_amount summary = amt \<and> s_to_account summary = recipient
         \<and> s_from_account summary = upi_id prof"
      using sc prof add_commit_fresh[OF fresh'']
      by (simp add: process_transaction_def process_try_def Let_def cand[symmetric] uid[symmetric])
  }
  {
    assume sc: "score cand prof
          (length (transactions_of (d\<lparr>transactions := transactions d @ [cand]\<rparr>) uid))
          (last_location d uid) (d\<lparr>transactions := transactions d @ [cand]\<rparr>) = Inr res
        \<and> final_prediction res = 0"
    show "create_and_predict_transaction score env inp req amt ttype method recipient cu d store
        = (d\<lparr>transactions := transactions d @ [cand\<lparr>is_fraud := Some False\<rparr>]\<rparr>,
           store, Inr (Scored res))"
      using sc prof add_commit_fresh[OF fresh'] set_is_fraud_appended[OF fresh', of False]
      by (simp add: create_and_predict_transaction_def Let_def cand[symmetric] uid[symmetric] id)
  }
qed (simp_all add: cand candidate_money)


theorem not_fraud_persists_once_witness:
  "profile_of ex_db (cu_user_id ex_alice) = Some ex_profile
   \<and> in_uuid ex_inputs \<notin> set (map transaction_id (transactions ex_db))
   \<and> score_clean ex_candidate ex_profile (length (transactions_of ex_db ''u1''))
        (last_location ex_db ''u1'') ex_db = Inr (ex_verdict 0)
   \<and> score_clean ex_candidate ex_profile
        (length (transactions_of (ex_db\<lparr>transactions := transactions ex_db @ [ex_candidate]\<rparr>) ''u1''))
        (last_location ex_db ''u1'')
        (ex_db\<lparr>transactions := transactions ex_db @ [ex_candidate]\<rparr>) = Inr (ex_verdict 0)
   \<and> final_prediction (ex_verdict 0) = 0
   \<and> (\<exists>summary.
        process_transaction score_clean ex_inputs ex_request 50000 ''P2P'' ''UPI'' ''bob@upi''
          ex_alice ex_db
          = (ex_db_saved False, Inr (Results ex_alice summary (ex_verdict 0)))
        \<and> s_amount summary = 50000 \<and> s_to_account summary = ''bob@upi''
        \<and> s_from_account summary = ''alice@upi'')
   \<and> create_and_predict_transaction score_clean smtp_up ex_inputs ex_request 50000 ''P2P''
        ''UPI'' ''bob@upi'' ex_alice ex_db []
       = (ex_db_saved False, [], Inr (Scored (ex_verdict 0)))"
proof -
  have fresh: "in_uuid ex_inputs \<notin> set (map transaction_id (transactions ex_db))"
    by (simp add: ex_inputs_def ex_db_def)
  have cand: "ex_candidate
      = candidate ex_inputs ex_request 50000 ''P2P'' ''UPI'' ''bob@upi'' ex_alice ex_profile"
    by (simp add: ex_candidate_eq)
  have uid: "''u1'' = cu_user_id ex_alice"
    by (simp add: ex_alice_def)
  have verdict: "final_prediction (ex_verdict 0) = 0"
    by (simp add: ex_verdict_def)
  have saved: "ex_db\<lparr>transactions := transactions ex_db @ [ex_candidate\<lparr>is_fraud := Some False\<rparr>]\<rparr>
      = ex_db_saved False"
    by (simp add: ex_db_saved_def ex_db_def)
  show ?thesis
    using not_fraud_persists_once [OF ex_profile_found fresh cand uid,
        of score_clean "ex_verdict 0" smtp_up "[]"]
      ex_profile_found fresh verdict
    by (simp add: score_clean_def saved ex_profile_def)
qed

text \<open>
  C5. At most one challenge per key. Every action of \<open>step_up_verify\<close>, and the legacy
  issue and verify, keep the keys of the store distinct, so a key never has more than one
  entry. After \<open>send_otp\<close> or \<open>resend_otp\<close> the key holds exactly the newly drawn
  code, and a verification with any other code, the superseded one included, is refused
  and changes nothing.
\<close>

theorem one_challenge_per_key:
  assumes inv: "one_per_key store"
  shows "one_per_key (fst (snd (step_up_verify env draw action email otp td cu d store)))
     \<and> one_per_key (fst (snd (create_and_predict_transaction score env inp req amt ttype
          method recipient cu d store)))
     \<and> one_per_key (fst (verify_otp code cu d store))
     \<and> length (challenges_for key
          (fst (snd (step_up_verify env draw action email otp td cu d store)))) \<le> 1
     \<and> (action = ''send_otp'' \<or> action = ''resend_otp'' \<longrightarrow>
          otp_get (fst (snd (step_up_verify env draw action email otp td cu d store))) email
            = Some (StrOtp (str_int draw))
          \<and> length (challenges_for email
               (fst (snd (step_up_verify env draw action email otp td cu d store)))) = 1
          \<and> (old \<noteq> str_int draw \<longrightarrow>
               step_up_verify env2 draw2 ''verify_otp'' email (Some old) td2 cu2 d
                 (fst (snd (step_up_verify env draw action email otp td cu d store)))
               = (d, fst (snd (step_up_verify env draw action email otp td cu d store)),
                  Some (invalid_page cu2 email td2))))"
proof (intro conjI impI)
  let ?after = "fst (snd (step_up_verify env draw action email otp td cu d store))"
  show kept: "one_per_key ?after"
    using inv by (rule step_up_keeps_one_per_key)
  show "one_per_key (fst (snd (create_and_predict_transaction score env inp req amt ttype
          method recipient cu d store)))"
    using inv by (rule legacy_store_cases)
  show "one_per_key (fst (verify_otp code cu d store))"
    using inv by (rule legacy_verify_store)
  show "length (challenges_for key ?after) \<le> 1"
    using kept by (rule challenges_at_most_one)
  {
    assume issue: "action = ''send_otp'' \<or> action = ''resend_otp''"
    then have after: "?after = otp_set email (StrOtp (str_int draw)) store"
      by (simp add: issue_step)
    show new: "otp_get ?after email = Some (StrOtp (str_int draw))"
      by (simp add: after otp_get_set)
    have "challenges_for email ?after \<noteq> []"
      using new by (rule challenges_present)
    moreover have "length (challenges_for email ?after) \<le> 1"
      using kept by (rule challenges_at_most_one)
    ultimately show "length (challenges_for email ?after) = 1"
      by (cases "challenges_for email ?after") auto
    {
      assume "old \<noteq> str_int draw"
      then show "step_up_verify env2 draw2 ''verify_otp'' email (Some old) td2 cu2 d ?after
               = (d, ?after, Some (invalid_page cu2 email td2))"
        using new by (simp add: verify_step)
    }
  }
qed

theorem one_challenge_per_key_witness:
  "one_per_key [(Some ''alice@example.com'', StrOtp ''654321'')]
   \<and> fst (snd (step_up_verify smtp_up 123456 ''resend_otp'' (Some ''alice@example.com'') None
        (None :: pending option) ex_alice ex_db [(Some ''alice@example.com'', StrOtp ''654321'')]))
     = [(Some ''alice@example.com'', StrOtp ''123456'')]
   \<and> ''654321'' \<noteq> str_int 123456
   \<and> step_up_verify smtp_up 0 ''verify_otp'' (Some ''alice@example.com'') (Some ''654321'')
        (None :: pending option) ex_alice ex_db [(Some ''alice@example.com'', StrOtp ''123456'')]
     = (ex_db, [(Some ''alice@example.com'', StrOtp ''123456'')],
        Some (invalid_page ex_alice (Some ''alice@example.com'') None))"
proof -
  have inv: "one_per_key [(Some ''alice@example.com'', StrOtp ''654321'')]"
    by (simp add: one_per_key_def)
  have after: "fst (snd (step_up_verify smtp_up 123456 ''resend_otp'' (Some ''alice@example.com'')
        None (None :: pending option) ex_alice ex_db
        [(Some ''alice@example.com'', StrOtp ''654321'')]))
     = [(Some ''alice@example.com'', StrOtp ''123456'')]"
    by (simp add: issue_step otp_set_def str_123456)
  show ?thesis
    using one_challenge_per_key [OF inv, where env = smtp_up and draw = 123456
        and action = "''resend_otp''" and email = "Some ''alice@example.com''" and otp = None
        and td = "None :: pending option" and cu = ex_alice and d = ex_db
        and old = "''654321''" and ?env2.0 = smtp_up and ?draw2.0 = 0
        and ?td2.0 = "None :: pending option" and ?cu2.0 = ex_alice]
      inv
    by (simp add: after str_123456)
qed

text \<open>
  C6. A code verifies once. After \<open>step_up_verify\<close> has accepted a code, the key has no
  entry in the store, and a further verification for that key, with the same or any other
  code, is refused and changes nothing. The same holds for the legacy \<open>verify_otp\<close>:
  after a success the payer's key has no entry and the next call is refused with
  status 400.
\<close>

theorem otp_single_use:
  "(step_up_verify env draw ''verify_otp'' email otp td cu d store = (d1, store1, Some pg)
      \<and> template pg = ''identity_verified.html'' \<longrightarrow>
      otp_get store1 email = None
      \<and> challenges_for email store1 = []
      \<and> step_up_verify env2 draw2 ''verify_otp'' email otp2 td2 cu2 d1 store1
          = (d1, store1, Some (invalid_page cu2 email td2)))
   \<and> (profile_of dL (cu_user_id cuL) = Some prof
      \<and> verify_otp code cuL dL storeL = (store2, Inr msg) \<longrightarrow>
      otp_get store2 (Some (upi_id prof)) = None
      \<and> verify_otp code2 cuL dL store2
          = (store2, Inl (HTTPException 400 (Detail ''Invalid or expired OTP''))))"
proof (intro conjI impI)
  assume ok: "step_up_verify env draw ''verify_otp'' email otp td cu d store = (d1, store1, Some pg)
      \<and> template pg = ''identity_verified.html''"
  then have purged: "store1 = otp_del email store" and same: "d1 = d"
    by (auto simp: verify_step invalid_page_def split: if_splits)
  show "otp_get store1 email = None"
    by (simp add: purged otp_get_del)
  show "challenges_for email store1 = []"
    by (simp add: purged challenges_after_del)
  show "step_up_verify env2 draw2 ''verify_otp'' email otp2 td2 cu2 d1 store1
          = (d1, store1, Some (invalid_page cu2 email td2))"
    by (simp add: verify_step purged otp_get_del)
next
  assume ok: "profile_of dL (cu_user_id cuL) = Some prof
      \<and> verify_otp code cuL dL storeL = (store2, Inr msg)"
  then have purged: "store2 = otp_del (Some (upi_id prof)) storeL"
    by (auto simp: verify_otp_def Let_def split: if_splits)
  show "otp_get store2 (Some (upi_id prof)) = None"
    by (simp add: purged otp_get_del)
  show "verify_otp code2 cuL dL store2
          = (store2, Inl (HTTPException 400 (Detail ''Invalid or expired OTP'')))"
    using ok by (simp add: verify_otp_def purged otp_get_del falsy_otp_def)
qed

theorem otp_single_use_witness:
  "step_up_verify smtp_up 0 ''verify_otp'' (Some ''alice@example.com'') (Some ''123456'')
      (None :: pending option) ex_alice ex_db [(Some ''alice@example.com'', StrOtp ''123456'')]
     = (ex_db, [], Some (verified_page ex_alice))
   \<and> template (verified_page ex_alice :: pending page) = ''identity_verified.html''
   \<and> step_up_verify smtp_up 0 ''verify_otp'' (Some ''alice@example.com'') (Some ''123456'')
      (None :: pending option) ex_alice ex_db []
     = (ex_db, [], Some (invalid_page ex_alice (Some ''alice@example.com'') None))
   \<and> profile_of ex_db (cu_user_id ex_alice) = Some ex_profile
   \<and> verify_otp 123456 ex_alice ex_db [(Some ''alice@upi'', IntOtp 123456)]
     = ([], Inr ''OTP verified successfully. Transaction approved.'')
   \<and> verify_otp 123456 ex_alice ex_db []
     = ([], Inl (HTTPException 400 (Detail ''Invalid or expired OTP'')))"
proof -
  have first: "step_up_verify smtp_up 0 ''verify_otp'' (Some ''alice@example.com'')
      (Some ''123456'') (None :: pending option) ex_alice ex_db
      [(Some ''alice@example.com'', StrOtp ''123456'')]
     = (ex_db, [], Some (verified_page ex_alice))"
    by (simp add: verify_step otp_get_def otp_del_def)
  have page: "template (verified_page ex_alice :: pending page) = ''identity_verified.html''"
    by (simp add: verified_page_def)
  have legacy: "verify_otp 123456 ex_alice ex_db [(Some ''alice@upi'', IntOtp 123456)]
     = ([], Inr ''OTP verified successfully. Transaction approved.'')"
    by (simp add: verify_otp_def ex_profile_found otp_get_def otp_del_def falsy_otp_def
        ex_profile_def)
  show ?thesis
    using otp_single_use [where env = smtp_up and draw = 0
        and email = "Some ''alice@example.com''" and otp = "Some ''123456''"
        and td = "None :: pending option" and cu = ex_alice and d = ex_db
        and store = "[(Some ''alice@example.com'', StrOtp ''123456'')]"
        and ?d1.0 = ex_db and ?store1.0 = "[]" and pg = "verified_page ex_alice"
        and ?env2.0 = smtp_up and ?draw2.0 = 0 and ?otp2.0 = "Some ''123456''"
        and ?td2.0 = "None :: pending option" and ?cu2.0 = ex_alice
        and prof = ex_profile and code = 123456 and ?store2.0 = "[]"
        and cuL = ex_alice and dL = ex_db and storeL = "[(Some ''alice@upi'', IntOtp 123456)]"
        and msg = "''OTP verified successfully. Transaction approved.''" and ?code2.0 = 123456]
      first page legacy ex_profile_found
    by simp
qed

text \<open>
  C7. Enrichment never hands a failure to its caller. Whatever exception the lookup raises
  (a network error or timeout, an error status, a body that is not JSON, JSON that is not
  an object), the derived columns carry the IP \<open>127.0.0.1\<close>, country and city
  \<open>Unknown\<close> and no coordinates; and with neither a \<open>device_id\<close> cookie nor an
  \<open>X-Device-ID\<close> header the device id is \<open>unknown_device\<close>.
\<close>

theorem enrichment_falls_back:
  "(lookup_try outcome = Inl e \<longrightarrow>
      d_ip_address (calculate_derived_columns req outcome) = ''127.0.0.1''
      \<and> d_country (calculate_derived_columns req outcome) = ''Unknown''
      \<and> d_city (calculate_derived_columns req outcome) = ''Unknown''
      \<and> d_latitude (calculate_derived_columns req outcome) = None
      \<and> d_longitude (calculate_derived_columns req outcome) = None)
   \<and> (cookies req ''device_id'' = None \<and> headers req ''X-Device-ID'' = None \<longrightarrow>
      d_device_id (calculate_derived_columns req outcome) = ''unknown_device'')
   \<and> (outcome \<in> {RequestFailed, BadStatus, NotJson, NotAnObject} \<longrightarrow>
      (\<exists>e. lookup_try outcome = Inl e))"
proof (intro conjI impI)
  assume "outcome \<in> {RequestFailed, BadStatus, NotJson, NotAnObject}"
  then show "\<exists>e. lookup_try outcome = Inl e" by auto
next
  assume "cookies req ''device_id'' = None \<and> headers req ''X-Device-ID'' = None"
  then show "d_device_id (calculate_derived_columns req outcome) = ''unknown_device''"
    by (simp add: calculate_derived_columns_def get_device_id_from_request_def falsy_str_def
        split: prod.splits)
qed (simp_all add: calculate_derived_columns_def get_ip_failure sentinel_location_def)

theorem enrichment_falls_back_witness:
  "lookup_try RequestFailed = Inl RequestException
   \<and> cookies \<lparr>cookies = Map.empty, headers = Map.empty\<rparr> ''device_id'' = None
   \<and> headers \<lparr>cookies = Map.empty, headers = Map.empty\<rparr> ''X-Device-ID'' = None
   \<and> RequestFailed \<in> {RequestFailed, BadStatus, NotJson, NotAnObject}
   \<and> calculate_derived_columns \<lparr>cookies = Map.empty, headers = Map.empty\<rparr> RequestFailed
       = \<lparr> d_device_id = ''unknown_device'', d_ip_address = ''127.0.0.1'',
           d_country = ''Unknown'', d_city = ''Unknown'', d_latitude = None,
           d_longitude = None, d_initiation_mode = ''Default'' \<rparr>"
  using enrichment_falls_back [of RequestFailed RequestException
      "\<lparr>cookies = Map.empty, headers = Map.empty\<rparr>"]
  by (simp add: calculate_derived_columns_def get_ip_and_location_data_def sentinel_location_def)

text \<open>
  C8. A delivery failure in the legacy submission is not handled. With a positive verdict
  and an SMTP session that raises, \<open>create_and_predict_transaction\<close> ends with that
  exception, after the flagged row and the code have been stored; the sibling
  \<open>send_otp_email\<close> behind \<open>step_up_verify\<close> catches the same failure and reports
  it on the page, with the code kept in the store.
\<close>

theorem legacy_mail_failure_escapes:
  "create_and_predict_transaction score_fraud smtp_down ex_inputs ex_request 50000 ''P2P''
      ''UPI'' ''bob@upi'' ex_alice ex_db []
     = (ex_db_saved True, [(Some ''alice@upi'', IntOtp 123456)], Inl SMTPException)
   \<and> step_up_verify smtp_down 123456 ''send_otp'' (Some ''alice@example.com'') None
        (None :: pending option) ex_alice ex_db []
     = (ex_db, [(Some ''alice@example.com'', StrOtp ''123456'')],
        Some \<lparr> template = ''step_up.html'', page_user = ex_alice, otp_sent = False,
               user_email = Some ''alice@example.com'', transaction_data = None,
               success = None, error = Some ''Failed to send OTP. Please try again.'' \<rparr>)"
proof (intro conjI)
  show "create_and_predict_transaction score_fraud smtp_down ex_inputs ex_request 50000 ''P2P''
      ''UPI'' ''bob@upi'' ex_alice ex_db []
     = (ex_db_saved True, [(Some ''alice@upi'', IntOtp 123456)], Inl SMTPException)"
    by (simp add: create_and_predict_transaction_def ex_profile_found ex_candidate_eq
        add_commit_def set_is_fraud_def score_fraud_def ex_verdict_def legacy_smtp_def
        smtp_down_def otp_set_def ex_db_saved_def Let_def)
       (simp add: ex_db_def ex_candidate_def ex_inputs_def ex_profile_def)
  show "step_up_verify smtp_down 123456 ''send_otp'' (Some ''alice@example.com'') None
        (None :: pending option) ex_alice ex_db []
     = (ex_db, [(Some ''alice@example.com'', StrOtp ''123456'')],
        Some \<lparr> template = ''step_up.html'', page_user = ex_alice, otp_sent = False,
               user_email = Some ''alice@example.com'', transaction_data = None,
               success = None, error = Some ''Failed to send OTP. Please try again.'' \<rparr>)"
    by (simp add: step_up_verify_def str_123456 otp_set_def send_otp_email_def smtp_down_def)
qed

text \<open>
  C9. \<open>step_up_verify\<close> is keyed by the \<open>email\<close> form field alone. Two requests with
  the same form fields by different callers leave the same database and the same store
  and render the same page, up to the caller shown in the page's context; and the
  \<open>verify_otp\<close> action succeeds exactly when the store maps the supplied email to the
  supplied code, whoever is logged in.
\<close>

theorem step_up_ignores_caller:
  "fst (step_up_verify env draw action email otp td cu1 d store)
     = fst (step_up_verify env draw action email otp td cu2 d store)
   \<and> fst (snd (step_up_verify env draw action email otp td cu1 d store))
     = fst (snd (step_up_verify env draw action email otp td cu2 d store))
   \<and> map_option (page_user_update (\<lambda>caller. cu2))
        (snd (snd (step_up_verify env draw action email otp td cu1 d store)))
     = snd (snd (step_up_verify env draw action email otp td cu2 d store))
   \<and> (snd (snd (step_up_verify env draw ''verify_otp'' email otp td cu1 d store))
        = Some (verified_page cu1))
     = (\<exists>code. otp = Some code \<and> otp_get store email = Some (StrOtp code))"
proof (intro conjI)
  show "(snd (snd (step_up_verify env draw ''verify_otp'' email otp td cu1 d store))
        = Some (verified_page cu1))
     = (\<exists>code. otp = Some code \<and> otp_get store email = Some (StrOtp code))"
    by (simp add: verify_step invalid_page_def verified_page_def)
qed (simp_all add: step_up_verify_def Let_def)

text \<open>
  C10. Deleting a transaction checks no ownership. For every id that is in the table and
  every caller, the row is removed and success is reported, and the result and the final
  table are the same for any two callers.
\<close>

theorem delete_ignores_owner:
  "get_transaction d txn_id = Some txn \<Longrightarrow>
     delete_transaction txn_id cu d
       = (d\<lparr>transactions := filter (\<lambda>r. transaction_id r \<noteq> txn_id) (transactions d)\<rparr>,
          Inr ''Transaction deleted'')
     \<and> get_transaction (fst (delete_transaction txn_id cu d)) txn_id = None
     \<and> delete_transaction txn_id cu' d = delete_transaction txn_id cu d"
  by (auto simp: delete_transaction_def get_transaction_def delete_commit_def find_None_iff
      dest: find_Some_iff[THEN iffD1])

theorem delete_ignores_owner_witness:
  "get_transaction (ex_db_saved False) ''txn-1'' = Some (ex_candidate\<lparr>is_fraud := Some False\<rparr>)
   \<and> user_id (ex_candidate\<lparr>is_fraud := Some False\<rparr>) \<noteq> cu_user_id ex_mallory
   \<and> delete_transaction ''txn-1'' ex_mallory (ex_db_saved False) = (ex_db, Inr ''Transaction deleted'')
   \<and> delete_transaction ''txn-1'' ex_alice (ex_db_saved False)
       = delete_transaction ''txn-1'' ex_mallory (ex_db_saved False)"
proof -
  have present: "get_transaction (ex_db_saved False) ''txn-1''
      = Some (ex_candidate\<lparr>is_fraud := Some False\<rparr>)"
    by (simp add: get_transaction_def ex_db_saved_def ex_candidate_def)
  show ?thesis
    using present delete_ignores_owner [OF present, of ex_mallory ex_alice]
    by (simp add: ex_db_saved_def ex_db_def ex_candidate_def ex_mallory_def)
qed

end
